theory Spec2Isabelle
  imports Complex_Main "HOL-Library.Sublist"
begin

section \<open>Python strings\<close>

text \<open>
  A Python \<open>str\<close> is a sequence of Unicode code points, and \<open>len\<close>, slicing and
  \<open>strip\<close> count code points. The templates of \<open>app.py\<close> hold characters beyond
  Latin-1 (the quotation marks U+201C and U+201D), so a character is modelled by its
  code point, a natural number, and a string by the list of its code points.
  \<open>ascii\<close> writes the ASCII stretches of a literal; every other character is given by
  its code point (10 is the line feed, 243 is o with acute accent, and so on).
\<close>

type_synonym str = "nat list"

definition ascii :: "string \<Rightarrow> str" where
  "ascii cs = map of_char cs"

text \<open>
  \<open>str.isspace\<close> of CPython for one character: bidirectional class WS, B or S, or
  general category Zs.
\<close>

definition isspace :: "nat \<Rightarrow> bool" where
  "isspace c =
     ((9 \<le> c \<and> c \<le> 13) \<or> (28 \<le> c \<and> c \<le> 32) \<or> c = 133 \<or> c = 160 \<or> c = 5760 \<or>
      (8192 \<le> c \<and> c \<le> 8202) \<or> c = 8232 \<or> c = 8233 \<or> c = 8239 \<or> c = 8287 \<or>
      c = 12288)"

text \<open>\<open>s.strip()\<close>: leading and trailing whitespace removed.\<close>

definition strip :: "str \<Rightarrow> str" where
  "strip s = rev (dropWhile isspace (rev (dropWhile isspace s)))"

text \<open>
  The test \<open>not pregunta or not pregunta.strip()\<close> on an \<open>Optional[str]\<close>:
  \<open>None\<close> and the empty string are false values, and \<open>strip\<close> is only reached
  on a string.
\<close>

fun sin_pregunta :: "str option \<Rightarrow> bool" where
  "sin_pregunta None = True"
| "sin_pregunta (Some q) = (q = [] \<or> strip q = [])"

text \<open>An \<open>Optional[str]\<close> interpolated in an f-string.\<close>

fun interpolar :: "str option \<Rightarrow> str" where
  "interpolar None = ascii ''None''"
| "interpolar (Some q) = q"

section \<open>Configuration\<close>

definition MAX_CHARS_SENTENCIA :: nat where
  "MAX_CHARS_SENTENCIA = 6000"

definition MAX_FILES_LOTE :: nat where
  "MAX_FILES_LOTE = 10"

definition PROMPT_JURIDICO_BASE :: str where
  "PROMPT_JURIDICO_BASE =
     ascii ''Eres un asistente jur'' @ [237] @ ascii ''dico especializado en el an'' @ [225] @
     ascii ''lisis de resoluciones judiciales espa'' @ [241] @ ascii ''olas. '' @
     ascii ''Tu funci'' @ [243] @ ascii ''n es extraer informaci'' @ [243] @ ascii ''n jur'' @ [237] @
     ascii ''dica relevante de forma objetiva y t'' @ [233] @ ascii ''cnica. '' @
     ascii ''No emites dict'' @ [225] @ ascii ''menes jur'' @ [237] @
     ascii ''dicos ni valoraciones personales. '' @
     ascii ''No realizas inferencias no fundamentadas en el texto. '' @
     ascii ''Si una informaci'' @ [243] @
     ascii ''n no consta expresamente en la sentencia, debes indicarlo de forma clara. '' @
     ascii ''Debes limitar tu respuesta estrictamente a la tarea solicitada en cada consulta.''"

text \<open>The slice \<open>texto[:MAX_CHARS_SENTENCIA]\<close> of the handlers.\<close>

definition recortar :: "str \<Rightarrow> str" where
  "recortar texto = take MAX_CHARS_SENTENCIA texto"

section \<open>The prompt builder\<close>

text \<open>
  \<open>construir_prompt(tipo, texto, pregunta)\<close>. Each template is a triple-quoted
  f-string: it opens with a line feed, and a line feed follows the interpolated text.
  One line of the model is one line of the source literal.
\<close>

definition construir_prompt :: "str \<Rightarrow> str \<Rightarrow> str option \<Rightarrow> str" where
  "construir_prompt tipo texto pregunta =
    (if tipo = ascii ''sujetos'' then
        [10] @
        ascii ''Identifica exclusivamente los sujetos intervinientes en la resoluci'' @ [243] @ ascii ''n judicial'' @ [10] @
        ascii ''y su posici'' @ [243] @ ascii ''n procesal (demandante, demandado, acusado, Ministerio Fiscal,'' @ [10] @
        ascii ''Administraci'' @ [243] @ ascii ''n, etc.).'' @ [10] @
        [10] @
        ascii ''No incluyas hechos, fundamentos jur'' @ [237] @ ascii ''dicos, ratio decidendi ni fallo.'' @ [10] @
        [10] @
        ascii ''SENTENCIA:'' @ [10] @
        texto @
        [10]
     else if tipo = ascii ''ratio'' then
        [10] @
        ascii ''Identifica exclusivamente la ratio decidendi de la sentencia.'' @ [10] @
        [10] @
        ascii ''Limita tu respuesta '' @ [250] @ ascii ''nicamente a la raz'' @ [243] @ ascii ''n jur'' @ [237] @ ascii ''dica fundamental'' @ [10] @
        ascii ''que justifica el fallo.'' @ [10] @
        [10] @
        ascii ''No incluyas informaci'' @ [243] @ ascii ''n sobre las partes, hechos ni el fallo.'' @ [10] @
        [10] @
        ascii ''SENTENCIA:'' @ [10] @
        texto @
        [10]
     else if tipo = ascii ''normativa'' then
        [10] @
        ascii ''Identifica exclusivamente la normativa aplicada en la resoluci'' @ [243] @ ascii ''n judicial.'' @ [10] @
        [10] @
        ascii ''Incluye leyes, reglamentos o preceptos citados expresamente.'' @ [10] @
        ascii ''No incluyas hechos, an'' @ [225] @ ascii ''lisis del caso, ratio decidendi ni fallo.'' @ [10] @
        [10] @
        ascii ''SENTENCIA:'' @ [10] @
        texto @
        [10]
     else if tipo = ascii ''fallo'' then
        [10] @
        ascii ''Resume exclusivamente el fallo de la sentencia en una '' @ [250] @ ascii ''nica frase clara y precisa.'' @ [10] @
        [10] @
        ascii ''No incluyas fundamentos jur'' @ [237] @ ascii ''dicos, hechos ni ratio decidendi.'' @ [10] @
        [10] @
        ascii ''SENTENCIA:'' @ [10] @
        texto @
        [10]
     else if tipo = ascii ''consecuencia'' then
        [10] @
        ascii ''Identifica exclusivamente la consecuencia jur'' @ [237] @ ascii ''dica impuesta en la resoluci'' @ [243] @ ascii ''n'' @ [10] @
        ascii ''(pena, sanci'' @ [243] @ ascii ''n, condena u obligaci'' @ [243] @ ascii ''n).'' @ [10] @
        [10] @
        ascii ''No incluyas otros aspectos de la sentencia.'' @ [10] @
        [10] @
        ascii ''SENTENCIA:'' @ [10] @
        texto @
        [10]
     else if tipo = ascii ''otro'' then
       (if sin_pregunta pregunta then
          [10] @
          ascii ''Has seleccionado '' @ [8220] @ ascii ''Otra cuesti'' @ [243] @ ascii ''n jur'' @ [237] @ ascii ''dica o f'' @ [225] @ ascii ''ctica'' @ [8221] @ ascii '', pero no se ha proporcionado una pregunta.'' @ [10] @
          ascii ''Indica: '' @ [8220] @ ascii ''No se ha proporcionado pregunta'' @ [8221] @ ascii ''.'' @ [10]
        else
          [10] @
          ascii ''Responde exclusivamente a la siguiente cuesti'' @ [243] @ ascii ''n jur'' @ [237] @ ascii ''dica o f'' @ [225] @ ascii ''ctica,'' @ [10] @
          ascii ''bas'' @ [225] @ ascii ''ndote '' @ [250] @ ascii ''nicamente en el texto de la sentencia proporcionada.'' @ [10] @
          [10] @
          ascii ''Si la informaci'' @ [243] @ ascii ''n no consta expresamente, ind'' @ [237] @ ascii ''calo de forma clara.'' @ [10] @
          [10] @
          ascii ''CUESTI'' @ [211] @ ascii ''N PLANTEADA:'' @ [10] @
          interpolar pregunta @
          [10] @
          [10] @
          ascii ''SENTENCIA:'' @ [10] @
          texto @
          [10])
     else
        [10] @
        ascii ''Analiza jur'' @ [237] @ ascii ''dicamente la siguiente sentencia de forma objetiva.'' @ [10] @
        [10] @
        ascii ''SENTENCIA:'' @ [10] @
        texto @
        [10])"

section \<open>Exceptions, uploads and the outside world\<close>

text \<open>
  The exceptions that leave a handler: \<open>HTTPException(status_code, detail)\<close> of
  FastAPI, and the \<open>KeyError\<close> of a subscript on a missing dictionary key.
\<close>

datatype excepcion =
  HTTPException (status_code: nat) (detail: str)
| KeyError str

text \<open>\<open>str(n)\<close> for a non-negative integer, as interpolated in an f-string.\<close>

fun str_nat :: "nat \<Rightarrow> str" where
  "str_nat n = (if n < 10 then [48 + n] else str_nat (n div 10) @ [48 + n mod 10])"

declare str_nat.simps [simp del]

text \<open>
  An \<open>UploadFile\<close>. What \<open>pypdf\<close> makes of the uploaded bytes is data of the model:
  \<open>pdf\<close> is \<open>Inl m\<close> when \<open>pypdf.PdfReader(file.file)\<close> raises an exception \<open>e\<close>
  with \<open>str(e) = m\<close>, and \<open>Inr pages\<close> otherwise, where each page is what its
  \<open>extract_text()\<close> does: it raises (\<open>Inl m\<close>) or returns a string or \<open>None\<close>.
\<close>

record UploadFile =
  filename :: str
  pdf :: "str + (str + str option) list"

text \<open>
  One request to the provider, \<open>client.chat.completions.create(model, messages,
  temperature)\<close>; a message is its role and its content, and the temperature is the
  decimal literal of the source.
\<close>

record peticion =
  model :: str
  messages :: "(str \<times> str) list"
  temperature :: real

text \<open>
  The effects outside the process are recorded in a trace, in the order they happen:
  reading one uploaded file with \<open>pypdf\<close>, and one request to the provider.
\<close>

datatype efecto = Lectura str | Llamada peticion

text \<open>
  The provider is a parameter of the model. On a request, after the effects so far, the
  body of the \<open>try\<close> of \<open>llamar_modelo\<close> either raises an exception \<open>e\<close> (\<open>Inl\<close> of
  \<open>str(e)\<close>) or evaluates \<open>resp.choices[0].message.content\<close> (\<open>Inr\<close>). The answer
  may depend on everything that happened before, so two equal requests may be answered
  differently.
\<close>

type_synonym cliente = "efecto list \<Rightarrow> peticion \<Rightarrow> str + str"

section \<open>Sessions\<close>

text \<open>
  A session is a dictionary with four fixed keys, and so is each entry of its list
  \<open>consultas\<close>. Field \<open>c_k\<close> is the key \<open>k\<close> of an entry, field \<open>s_k\<close> the key \<open>k\<close>
  of a session.
\<close>

record consulta =
  c_timestamp :: str
  c_tipo_analisis :: str
  c_pregunta :: "str option"
  c_resultado :: str

record sesion =
  s_created_at :: str
  s_archivo :: str
  s_texto_sentencia :: str
  s_consultas :: "consulta list"

text \<open>
  The state a handler runs in: the global dictionary \<open>SESIONES\<close> and the trace of
  outside effects. A handler has no \<open>await\<close>, so it runs from start to end without
  another handler in between.
\<close>

record mundo =
  SESIONES :: "str \<rightharpoonup> sesion"
  traza :: "efecto list"

section \<open>Utilities\<close>

text \<open>\<open>page.extract_text() or ""\<close>.\<close>

fun o_vacio :: "str option \<Rightarrow> str" where
  "o_vacio None = []"
| "o_vacio (Some t) = (if t = [] then [] else t)"

text \<open>The loop of \<open>leer_pdf\<close> over the pages, \<open>texto\<close> being the text so far.\<close>

fun leer_paginas :: "(str + str option) list \<Rightarrow> str \<Rightarrow> str + str" where
  "leer_paginas [] texto = Inr texto"
| "leer_paginas (page # pages) texto =
     (case page of
        Inl e \<Rightarrow> Inl e
      | Inr t \<Rightarrow> leer_paginas pages (texto @ o_vacio t))"

definition leer_pdf :: "mundo \<Rightarrow> UploadFile \<Rightarrow> (excepcion + str) \<times> mundo" where
  "leer_pdf w file =
     (let w' = w\<lparr>traza := traza w @ [Lectura (filename file)]\<rparr> in
      case (case pdf file of Inl e \<Rightarrow> Inl e | Inr pages \<Rightarrow> leer_paginas pages []) of
        Inl e \<Rightarrow> (Inl (HTTPException 400 (ascii ''No se pudo leer el PDF: '' @ e)), w')
      | Inr texto \<Rightarrow> (Inr texto, w'))"

definition llamar_modelo :: "cliente \<Rightarrow> mundo \<Rightarrow> str \<Rightarrow> (excepcion + str) \<times> mundo" where
  "llamar_modelo client w prompt =
     (let req = \<lparr>model = ascii ''gpt-4o-mini'',
                 messages = [(ascii ''system'', PROMPT_JURIDICO_BASE), (ascii ''user'', prompt)],
                 temperature = 0.2\<rparr>;
          w' = w\<lparr>traza := traza w @ [Llamada req]\<rparr> in
      case client (traza w) req of
        Inl e \<Rightarrow> (Inl (HTTPException 500 (ascii ''Error al llamar al modelo: '' @ e)), w')
      | Inr content \<Rightarrow> (Inr content, w'))"

text \<open>
  \<open>crear_sesion\<close> and \<open>registrar_consulta\<close>. The values the source draws from its
  environment are parameters: \<open>uuid\<close> is \<open>str(uuid4())\<close> and \<open>ahora\<close> is
  \<open>datetime.utcnow().isoformat()\<close>.
\<close>

definition crear_sesion :: "mundo \<Rightarrow> str \<Rightarrow> str \<Rightarrow> str \<Rightarrow> str \<Rightarrow> str \<times> mundo" where
  "crear_sesion w uuid ahora texto_sentencia nombre_archivo =
     (let session_id = uuid in
      (session_id,
       w\<lparr>SESIONES := (SESIONES w)(session_id \<mapsto>
            \<lparr>s_created_at = ahora @ ascii ''Z'',
             s_archivo = nombre_archivo,
             s_texto_sentencia = texto_sentencia,
             s_consultas = []\<rparr>)\<rparr>))"

definition registrar_consulta ::
  "mundo \<Rightarrow> str \<Rightarrow> str \<Rightarrow> str \<Rightarrow> str option \<Rightarrow> str \<Rightarrow> mundo" where
  "registrar_consulta w ahora session_id tipo_analisis pregunta resultado =
     (case SESIONES w session_id of
        None \<Rightarrow> w
      | Some ses \<Rightarrow>
          w\<lparr>SESIONES := (SESIONES w)(session_id \<mapsto>
               ses\<lparr>s_consultas := s_consultas ses @
                  [\<lparr>c_timestamp = ahora @ ascii ''Z'',
                    c_tipo_analisis = tipo_analisis,
                    c_pregunta = pregunta,
                    c_resultado = resultado\<rparr>]\<rparr>)\<rparr>)"

section \<open>Request handlers\<close>

text \<open>
  The responses. \<open>analizar\<close> renders \<open>index.html\<close> with the answer and the session
  identifier; the JSON handlers return dictionaries with fixed keys, written as
  records (\<open>j_\<close>, \<open>l_\<close>, \<open>b_\<close> and \<open>n_\<close> stand before the key).
\<close>

record respuesta_html =
  h_resultado :: str
  h_session_id :: str

record respuesta_json =
  j_session_id :: str
  j_tipo_analisis :: str
  j_archivo :: str
  j_resultado :: str

record resultado_lote =
  l_archivo :: str
  l_resultado :: str

record respuesta_lote =
  b_tipo_analisis :: str
  b_numero_sentencias :: nat
  b_resultados :: "resultado_lote list"

record respuesta_sesion =
  n_session_id :: str
  n_tipo_analisis :: str
  n_archivo :: str
  n_resultado :: str
  n_consultas_previas :: nat

text \<open>
  \<open>POST /analizar\<close>. \<open>uuid\<close> and \<open>ahora1\<close> are what \<open>crear_sesion\<close> draws,
  \<open>ahora2\<close> what \<open>registrar_consulta\<close> draws.
\<close>

definition analizar ::
  "cliente \<Rightarrow> mundo \<Rightarrow> str \<Rightarrow> str \<Rightarrow> str \<Rightarrow> str \<Rightarrow> UploadFile \<Rightarrow> str option \<Rightarrow>
   (excepcion + respuesta_html) \<times> mundo" where
  "analizar client w uuid ahora1 ahora2 tipo_analisis archivo pregunta =
     (case leer_pdf w archivo of
        (Inl e, w1) \<Rightarrow> (Inl e, w1)
      | (Inr texto, w1) \<Rightarrow>
          (let texto_recortado = recortar texto;
               prompt = construir_prompt tipo_analisis texto_recortado pregunta in
           case llamar_modelo client w1 prompt of
             (Inl e, w2) \<Rightarrow> (Inl e, w2)
           | (Inr resultado, w2) \<Rightarrow>
               (let (session_id, w3) = crear_sesion w2 uuid ahora1 texto_recortado (filename archivo);
                    w4 = registrar_consulta w3 ahora2 session_id tipo_analisis pregunta resultado in
                (Inr \<lparr>h_resultado = resultado, h_session_id = session_id\<rparr>, w4))))"

text \<open>\<open>POST /analizar_json\<close>.\<close>

definition analizar_json ::
  "cliente \<Rightarrow> mundo \<Rightarrow> str \<Rightarrow> str \<Rightarrow> str \<Rightarrow> str \<Rightarrow> UploadFile \<Rightarrow> str option \<Rightarrow>
   (excepcion + respuesta_json) \<times> mundo" where
  "analizar_json client w uuid ahora1 ahora2 tipo_analisis archivo pregunta =
     (case leer_pdf w archivo of
        (Inl e, w1) \<Rightarrow> (Inl e, w1)
      | (Inr texto, w1) \<Rightarrow>
          (let texto_recortado = recortar texto;
               prompt = construir_prompt tipo_analisis texto_recortado pregunta in
           case llamar_modelo client w1 prompt of
             (Inl e, w2) \<Rightarrow> (Inl e, w2)
           | (Inr resultado, w2) \<Rightarrow>
               (let (session_id, w3) = crear_sesion w2 uuid ahora1 texto_recortado (filename archivo);
                    w4 = registrar_consulta w3 ahora2 session_id tipo_analisis pregunta resultado in
                (Inr \<lparr>j_session_id = session_id,
                      j_tipo_analisis = tipo_analisis,
                      j_archivo = filename archivo,
                      j_resultado = resultado\<rparr>, w4))))"

text \<open>
  \<open>POST /analizar_lote\<close>. \<open>lote_bucle\<close> is the \<open>for\<close> loop over the files, with the
  list \<open>resultados\<close> built so far; an exception of \<open>leer_pdf\<close> or \<open>llamar_modelo\<close>
  leaves the loop and the handler.
\<close>

fun lote_bucle ::
  "cliente \<Rightarrow> mundo \<Rightarrow> str \<Rightarrow> str option \<Rightarrow> UploadFile list \<Rightarrow> resultado_lote list \<Rightarrow>
   (excepcion + resultado_lote list) \<times> mundo" where
  "lote_bucle client w tipo_analisis pregunta [] resultados = (Inr resultados, w)"
| "lote_bucle client w tipo_analisis pregunta (a # archivos) resultados =
     (case leer_pdf w a of
        (Inl e, w1) \<Rightarrow> (Inl e, w1)
      | (Inr leido, w1) \<Rightarrow>
          (let texto = recortar leido;
               prompt = construir_prompt tipo_analisis texto pregunta in
           case llamar_modelo client w1 prompt of
             (Inl e, w2) \<Rightarrow> (Inl e, w2)
           | (Inr res, w2) \<Rightarrow>
               lote_bucle client w2 tipo_analisis pregunta archivos
                 (resultados @ [\<lparr>l_archivo = filename a, l_resultado = res\<rparr>])))"

definition analizar_lote ::
  "cliente \<Rightarrow> mundo \<Rightarrow> str \<Rightarrow> UploadFile list \<Rightarrow> str option \<Rightarrow>
   (excepcion + respuesta_lote) \<times> mundo" where
  "analizar_lote client w tipo_analisis archivos pregunta =
     (if length archivos > MAX_FILES_LOTE then
        (Inl (HTTPException 400
               (ascii ''M'' @ [225] @ ascii ''ximo '' @ str_nat MAX_FILES_LOTE @
                ascii '' archivos por lote.'')), w)
      else
        case lote_bucle client w tipo_analisis pregunta archivos [] of
          (Inl e, w1) \<Rightarrow> (Inl e, w1)
        | (Inr resultados, w1) \<Rightarrow>
            (Inr \<lparr>b_tipo_analisis = tipo_analisis,
                  b_numero_sentencias = length archivos,
                  b_resultados = resultados\<rparr>, w1))"

text \<open>
  \<open>POST /analizar_sesion\<close>. After \<open>registrar_consulta\<close> the response reads
  \<open>SESIONES[session_id]\<close> again, twice; a subscript on a missing key raises
  \<open>KeyError\<close>.
\<close>

definition analizar_sesion ::
  "cliente \<Rightarrow> mundo \<Rightarrow> str \<Rightarrow> str \<Rightarrow> str \<Rightarrow> str option \<Rightarrow>
   (excepcion + respuesta_sesion) \<times> mundo" where
  "analizar_sesion client w ahora session_id tipo_analisis pregunta =
     (case SESIONES w session_id of
        None \<Rightarrow>
          (Inl (HTTPException 404
                 (ascii ''Sesi'' @ [243] @ ascii ''n no encontrada o caducada.'')), w)
      | Some ses \<Rightarrow>
          (let texto = s_texto_sentencia ses;
               prompt = construir_prompt tipo_analisis texto pregunta in
           case llamar_modelo client w prompt of
             (Inl e, w1) \<Rightarrow> (Inl e, w1)
           | (Inr resultado, w1) \<Rightarrow>
               (let w2 = registrar_consulta w1 ahora session_id tipo_analisis pregunta resultado in
                case SESIONES w2 session_id of
                  None \<Rightarrow> (Inl (KeyError session_id), w2)
                | Some ses2 \<Rightarrow>
                    (Inr \<lparr>n_session_id = session_id,
                          n_tipo_analisis = tipo_analisis,
                          n_archivo = s_archivo ses2,
                          n_resultado = resultado,
                          n_consultas_previas = length (s_consultas ses2)\<rparr>, w2))))"

text \<open>\<open>GET /sesion/{session_id}\<close>.\<close>

definition ver_sesion :: "mundo \<Rightarrow> str \<Rightarrow> excepcion + sesion" where
  "ver_sesion w session_id =
     (case SESIONES w session_id of
        None \<Rightarrow>
          Inl (HTTPException 404
                (ascii ''Sesi'' @ [243] @ ascii ''n no encontrada o caducada.''))
      | Some ses \<Rightarrow> Inr ses)"

section \<open>Notions of the specification, and providers for the examples\<close>

text \<open>
  A question is blank, in the words of the specification, when it is missing, empty or
  made of whitespace only.
\<close>

definition en_blanco :: "str option \<Rightarrow> bool" where
  "en_blanco pregunta = (case pregunta of None \<Rightarrow> True | Some q \<Rightarrow> list_all isspace q)"

text \<open>
  A sequence of calls of \<open>registrar_consulta\<close> on one session, each call given by
  the time it draws and its three arguments, and the entry one call appends.
\<close>

fun entrada :: "str \<times> str \<times> str option \<times> str \<Rightarrow> consulta" where
  "entrada (ahora, tipo_analisis, pregunta, resultado) =
     \<lparr>c_timestamp = ahora @ ascii ''Z'',
      c_tipo_analisis = tipo_analisis,
      c_pregunta = pregunta,
      c_resultado = resultado\<rparr>"

fun registrar_todas :: "mundo \<Rightarrow> str \<Rightarrow> (str \<times> str \<times> str option \<times> str) list \<Rightarrow> mundo" where
  "registrar_todas w session_id [] = w"
| "registrar_todas w session_id ((ahora, tipo_analisis, pregunta, resultado) # llamadas) =
     registrar_todas (registrar_consulta w ahora session_id tipo_analisis pregunta resultado)
       session_id llamadas"

text \<open>
  Two providers for the examples: one whose call always raises an exception with the
  given message, one that always answers with the given content. And the state of a
  process that has just started.
\<close>

definition cliente_falla :: "str \<Rightarrow> cliente" where
  "cliente_falla m tr req = Inl m"

definition cliente_responde :: "str \<Rightarrow> cliente" where
  "cliente_responde r tr req = Inr r"

definition mundo_inicial :: mundo where
  "mundo_inicial = \<lparr>SESIONES = Map.empty, traza = []\<rparr>"

text \<open>
  A session as \<open>analizar_json\<close> leaves it, with the one query of the upload in its
  history, and a state that holds this session only.
\<close>

definition sesion_ejemplo :: sesion where
  "sesion_ejemplo =
     \<lparr>s_created_at = ascii ''2026-01-01T10:00:00Z'',
      s_archivo = ascii ''a.pdf'',
      s_texto_sentencia = ascii ''Se desestima el recurso.'',
      s_consultas =
        [\<lparr>c_timestamp = ascii ''2026-01-01T10:00:01Z'',
          c_tipo_analisis = ascii ''fallo'',
          c_pregunta = None,
          c_resultado = ascii ''Desestimado.''\<rparr>]\<rparr>"

definition mundo_ejemplo :: mundo where
  "mundo_ejemplo = \<lparr>SESIONES = [ascii ''s1'' \<mapsto> sesion_ejemplo], traza = []\<rparr>"

section \<open>Text normalisation\<close>

text \<open>
  C3. The slice returns exactly the first 6000 characters of a text longer than 6000
  characters: a prefix of the text, of length 6000. A text of at most 6000 characters
  is returned unchanged, and the empty text gives the empty text.
\<close>

theorem recortar_primeros_6000:
  "(6000 < length texto \<longrightarrow> length (recortar texto) = 6000 \<and> prefix (recortar texto) texto) \<and>
   (length texto \<le> 6000 \<longrightarrow> recortar texto = texto) \<and>
   recortar [] = []"
  by (simp add: recortar_def MAX_CHARS_SENTENCIA_def take_is_prefix)

text \<open>
  The same at a text of 6001 characters, which loses its last one, and at a short
  text.
\<close>

theorem recortar_primeros_6000_witness:
  "6000 < length (replicate 6001 (97::nat)) \<and>
   length (recortar (replicate 6001 97)) = 6000 \<and>
   prefix (recortar (replicate 6001 97)) (replicate 6001 97) \<and>
   length (ascii ''fallo'') \<le> 6000 \<and>
   recortar (ascii ''fallo'') = ascii ''fallo''"
  using recortar_primeros_6000 [of "replicate 6001 97"]
    recortar_primeros_6000 [of "ascii ''fallo''"]
  by (simp add: ascii_def)

section \<open>The prompt builder: where the text goes\<close>

text \<open>What \<open>strip\<close> leaves is empty exactly when every character is whitespace.\<close>

lemma dropWhile_all_iff: "(\<forall>x\<in>set (dropWhile P xs). P x) \<longleftrightarrow> (\<forall>x\<in>set xs. P x)"
proof
  assume a: "\<forall>x\<in>set (dropWhile P xs). P x"
  have "dropWhile P xs = []"
  proof (rule ccontr)
    assume ne: "dropWhile P xs \<noteq> []"
    then have "\<not> P (hd (dropWhile P xs))" by (rule hd_dropWhile)
    moreover have "hd (dropWhile P xs) \<in> set (dropWhile P xs)" using ne by simp
    ultimately show False using a by blast
  qed
  then show "\<forall>x\<in>set xs. P x" by (simp add: dropWhile_eq_Nil_conv)
next
  assume "\<forall>x\<in>set xs. P x"
  then show "\<forall>x\<in>set (dropWhile P xs). P x" by (meson set_dropWhileD)
qed

lemma strip_blank_iff: "strip q = [] \<longleftrightarrow> (\<forall>c\<in>set q. isspace c)"
  by (simp add: strip_def dropWhile_eq_Nil_conv dropWhile_all_iff)

lemma sin_pregunta_en_blanco: "sin_pregunta pregunta \<longleftrightarrow> en_blanco pregunta"
  by (cases pregunta) (auto simp: en_blanco_def strip_blank_iff list_all_iff)

lemma otro_distinto:
  "ascii ''otro'' \<noteq> ascii ''sujetos''" "ascii ''otro'' \<noteq> ascii ''ratio''"
  "ascii ''otro'' \<noteq> ascii ''normativa''" "ascii ''otro'' \<noteq> ascii ''fallo''"
  "ascii ''otro'' \<noteq> ascii ''consecuencia''"
  by (simp_all add: ascii_def)

text \<open>
  C4. With the category \<open>otro\<close> and a blank question (missing, empty or whitespace
  only) the builder returns one fixed prompt, which asks to state that no question was
  provided: the same string whatever the text and whichever blank form the question
  takes.
\<close>

theorem construir_prompt_sin_pregunta:
  "en_blanco pregunta \<Longrightarrow>
   construir_prompt (ascii ''otro'') texto pregunta =
     [10] @
     ascii ''Has seleccionado '' @ [8220] @ ascii ''Otra cuesti'' @ [243] @ ascii ''n jur'' @ [237] @ ascii ''dica o f'' @ [225] @ ascii ''ctica'' @ [8221] @ ascii '', pero no se ha proporcionado una pregunta.'' @ [10] @
     ascii ''Indica: '' @ [8220] @ ascii ''No se ha proporcionado pregunta'' @ [8221] @ ascii ''.'' @ [10]"
proof -
  assume "en_blanco pregunta"
  then have s: "sin_pregunta pregunta" by (simp add: sin_pregunta_en_blanco)
  show ?thesis
    unfolding construir_prompt_def using s otro_distinto by simp
qed

text \<open>
  A question of a space, a tab and a line feed over some text gives the prompt that a
  missing question over the empty text gives.
\<close>

theorem construir_prompt_sin_pregunta_witness:
  "en_blanco (Some [32, 9, 10]) \<and>
   construir_prompt (ascii ''otro'') (ascii ''Visto el recurso'') (Some [32, 9, 10]) =
   construir_prompt (ascii ''otro'') [] None"
  using construir_prompt_sin_pregunta [of "Some [32, 9, 10]" "ascii ''Visto el recurso''"]
    construir_prompt_sin_pregunta [of None "[]"]
  by (simp add: en_blanco_def isspace_def)

text \<open>
  C1, as stated, fails: with the category \<open>otro\<close> and no question, the prompt over
  the text \<open>XYZ\<close> does not contain \<open>XYZ\<close> anywhere.
\<close>

theorem construir_prompt_texto_counterexample:
  "\<not> sublist (ascii ''XYZ'') (construir_prompt (ascii ''otro'') (ascii ''XYZ'') None)"
proof
  assume "sublist (ascii ''XYZ'') (construir_prompt (ascii ''otro'') (ascii ''XYZ'') None)"
  then have "set (ascii ''XYZ'') \<subseteq> set (construir_prompt (ascii ''otro'') (ascii ''XYZ'') None)"
    by (rule set_mono_sublist)
  then show False by (simp add: construir_prompt_def ascii_def)
qed

text \<open>
  C1, amended. Unless the category is \<open>otro\<close> and the question is blank, the prompt
  is a heading that does not depend on the text, then the whole text, then one line
  feed: the text stands at the end of the prompt, verbatim.
\<close>

theorem construir_prompt_texto_al_final:
  "\<not> (tipo = ascii ''otro'' \<and> sin_pregunta pregunta) \<Longrightarrow>
   \<exists>cabecera. \<forall>texto. construir_prompt tipo texto pregunta = cabecera @ texto @ [10]"
  unfolding construir_prompt_def
  by (auto intro: exI[where x="_ @ _"] simp del: append_assoc simp add: append_assoc[symmetric])

text \<open>The same for the category \<open>otro\<close> with a question that is not blank.\<close>

theorem construir_prompt_texto_al_final_witness:
  "\<not> (ascii ''otro'' = ascii ''otro'' \<and> sin_pregunta (Some (ascii ''Hubo costas''))) \<and>
   (\<exists>cabecera. \<forall>texto.
      construir_prompt (ascii ''otro'') texto (Some (ascii ''Hubo costas'')) =
      cabecera @ texto @ [10])"
  using construir_prompt_texto_al_final [of "ascii ''otro''" "Some (ascii ''Hubo costas'')"]
  by (simp add: ascii_def strip_def isspace_def)

section \<open>The session store\<close>

text \<open>
  C8. \<open>crear_sesion\<close> returns the identifier it drew, and looking that identifier up
  in the store it leaves (\<open>ver_sesion\<close>) succeeds with a session that holds the given
  text, the given file name and an empty history.
\<close>

theorem crear_sesion_ver_sesion:
  "fst (crear_sesion w uuid ahora texto_sentencia nombre_archivo) = uuid \<and>
   ver_sesion (snd (crear_sesion w uuid ahora texto_sentencia nombre_archivo))
     (fst (crear_sesion w uuid ahora texto_sentencia nombre_archivo)) =
   Inr \<lparr>s_created_at = ahora @ ascii ''Z'',
        s_archivo = nombre_archivo,
        s_texto_sentencia = texto_sentencia,
        s_consultas = []\<rparr>"
  by (simp add: crear_sesion_def ver_sesion_def)

text \<open>
  C5. On an identifier that is not in the store, \<open>registrar_consulta\<close> returns the
  state it was given: nothing is raised, no session is created, and the store is
  unchanged.
\<close>

theorem registrar_consulta_desconocida:
  "SESIONES w session_id = None \<Longrightarrow>
   registrar_consulta w ahora session_id tipo_analisis pregunta resultado = w"
  by (simp add: registrar_consulta_def)

text \<open>The same on the store of a process that has just started.\<close>

theorem registrar_consulta_desconocida_witness:
  "SESIONES mundo_inicial (ascii ''nonexistent'') = None \<and>
   registrar_consulta mundo_inicial (ascii ''2026-01-01T00:00:00'') (ascii ''nonexistent'')
     (ascii ''fallo'') None (ascii ''Se desestima.'') = mundo_inicial"
  using registrar_consulta_desconocida [of mundo_inicial "ascii ''nonexistent''"
      "ascii ''2026-01-01T00:00:00''" "ascii ''fallo''" None "ascii ''Se desestima.''"]
  by (simp add: mundo_inicial_def)

text \<open>One call on a session of the store, and a sequence of calls, as updates.\<close>

lemma registrar_consulta_existente:
  "SESIONES w session_id = Some ses \<Longrightarrow>
   registrar_consulta w ahora session_id tipo_analisis pregunta resultado =
   w\<lparr>SESIONES := (SESIONES w)(session_id \<mapsto>
       ses\<lparr>s_consultas := s_consultas ses @ [entrada (ahora, tipo_analisis, pregunta, resultado)]\<rparr>)\<rparr>"
  by (simp add: registrar_consulta_def)

lemma registrar_todas_existente:
  "SESIONES w session_id = Some ses \<Longrightarrow>
   registrar_todas w session_id llamadas =
   w\<lparr>SESIONES := (SESIONES w)(session_id \<mapsto>
       ses\<lparr>s_consultas := s_consultas ses @ map entrada llamadas\<rparr>)\<rparr>"
proof (induction llamadas arbitrary: w ses)
  case Nil
  then show ?case by (simp add: map_upd_triv)
next
  case (Cons c llamadas)
  obtain ahora tipo_analisis pregunta resultado
    where c: "c = (ahora, tipo_analisis, pregunta, resultado)"
    by (cases c) auto
  define ses1 where "ses1 = ses\<lparr>s_consultas := s_consultas ses @ [entrada c]\<rparr>"
  define w1 where "w1 = registrar_consulta w ahora session_id tipo_analisis pregunta resultado"
  have w1: "w1 = w\<lparr>SESIONES := (SESIONES w)(session_id \<mapsto> ses1)\<rparr>"
    unfolding w1_def ses1_def using Cons.prems c by (simp add: registrar_consulta_existente)
  then have "SESIONES w1 session_id = Some ses1" by simp
  then have "registrar_todas w1 session_id llamadas =
      w1\<lparr>SESIONES := (SESIONES w1)(session_id \<mapsto>
          ses1\<lparr>s_consultas := s_consultas ses1 @ map entrada llamadas\<rparr>)\<rparr>"
    by (rule Cons.IH)
  also have "\<dots> = w\<lparr>SESIONES := (SESIONES w)(session_id \<mapsto>
          ses1\<lparr>s_consultas := s_consultas ses1 @ map entrada llamadas\<rparr>)\<rparr>"
    unfolding w1 by simp
  also have "ses1\<lparr>s_consultas := s_consultas ses1 @ map entrada llamadas\<rparr> =
      ses\<lparr>s_consultas := s_consultas ses @ map entrada (c # llamadas)\<rparr>"
    unfolding ses1_def by simp
  finally have "registrar_todas w1 session_id llamadas =
      w\<lparr>SESIONES := (SESIONES w)(session_id \<mapsto>
          ses\<lparr>s_consultas := s_consultas ses @ map entrada (c # llamadas)\<rparr>)\<rparr>" .
  moreover have "registrar_todas w session_id (c # llamadas) =
      registrar_todas w1 session_id llamadas"
    unfolding w1_def c by simp
  ultimately show ?case by (simp add: fun_upd_def)
qed

text \<open>
  C9. On a session of the store, \<open>registrar_consulta\<close> appends exactly one entry at
  the end of the history, with the category, question and answer it was passed; the
  text, the file name and the creation time of the session, every other session and
  the trace are unchanged. After a sequence of calls the history is the old one followed
  by one entry per call, in call order, so its length grows by the number of calls.
\<close>

theorem registrar_consulta_solo_historial:
  "SESIONES w session_id = Some ses \<Longrightarrow>
   (\<exists>ses'. SESIONES (registrar_consulta w ahora session_id tipo_analisis pregunta resultado)
              session_id = Some ses' \<and>
       s_consultas ses' = s_consultas ses @
         [\<lparr>c_timestamp = ahora @ ascii ''Z'', c_tipo_analisis = tipo_analisis,
           c_pregunta = pregunta, c_resultado = resultado\<rparr>] \<and>
       s_texto_sentencia ses' = s_texto_sentencia ses \<and>
       s_archivo ses' = s_archivo ses \<and>
       s_created_at ses' = s_created_at ses) \<and>
   (\<forall>otra. otra \<noteq> session_id \<longrightarrow>
       SESIONES (registrar_consulta w ahora session_id tipo_analisis pregunta resultado) otra =
       SESIONES w otra) \<and>
   traza (registrar_consulta w ahora session_id tipo_analisis pregunta resultado) = traza w \<and>
   (\<exists>ses'. SESIONES (registrar_todas w session_id llamadas) session_id = Some ses' \<and>
       s_consultas ses' = s_consultas ses @ map entrada llamadas \<and>
       length (s_consultas ses') = length (s_consultas ses) + length llamadas \<and>
       s_texto_sentencia ses' = s_texto_sentencia ses \<and>
       s_archivo ses' = s_archivo ses \<and>
       s_created_at ses' = s_created_at ses) \<and>
   (\<forall>otra. otra \<noteq> session_id \<longrightarrow>
       SESIONES (registrar_todas w session_id llamadas) otra = SESIONES w otra)"
  by (simp add: registrar_consulta_existente registrar_todas_existente)

text \<open>
  Three calls on the session of the example, which has one entry: four entries, in
  call order, under the same file name.
\<close>

theorem registrar_consulta_solo_historial_witness:
  "SESIONES mundo_ejemplo (ascii ''s1'') = Some sesion_ejemplo \<and>
   (\<exists>ses'. SESIONES (registrar_todas mundo_ejemplo (ascii ''s1'')
                [(ascii ''2026-01-01T10:05:00'', ascii ''sujetos'', None, ascii ''A contra B.''),
                 (ascii ''2026-01-01T10:06:00'', ascii ''ratio'', None, ascii ''Falta de prueba.''),
                 (ascii ''2026-01-01T10:07:00'', ascii ''otro'', Some (ascii ''Hubo costas''),
                  ascii ''No consta.'')])
              (ascii ''s1'') = Some ses' \<and>
       length (s_consultas ses') = 4 \<and>
       map c_tipo_analisis (s_consultas ses') =
         [ascii ''fallo'', ascii ''sujetos'', ascii ''ratio'', ascii ''otro''] \<and>
       s_archivo ses' = ascii ''a.pdf'')"
proof -
  let ?L = "[(ascii ''2026-01-01T10:05:00'', ascii ''sujetos'', None, ascii ''A contra B.''),
             (ascii ''2026-01-01T10:06:00'', ascii ''ratio'', None, ascii ''Falta de prueba.''),
             (ascii ''2026-01-01T10:07:00'', ascii ''otro'', Some (ascii ''Hubo costas''),
              ascii ''No consta.'')]"
  have h: "SESIONES mundo_ejemplo (ascii ''s1'') = Some sesion_ejemplo"
    by (simp add: mundo_ejemplo_def)
  have "\<exists>ses'. SESIONES (registrar_todas mundo_ejemplo (ascii ''s1'') ?L) (ascii ''s1'') =
          Some ses' \<and>
       s_consultas ses' = s_consultas sesion_ejemplo @ map entrada ?L \<and>
       s_archivo ses' = s_archivo sesion_ejemplo"
    using registrar_consulta_solo_historial [OF h, of "[]" "[]" None "[]" ?L]
    by (elim conjE exE) (rule exI, intro conjI, assumption+)
  then obtain ses' where
    "SESIONES (registrar_todas mundo_ejemplo (ascii ''s1'') ?L) (ascii ''s1'') = Some ses'"
    and "s_consultas ses' = s_consultas sesion_ejemplo @ map entrada ?L"
    and "s_archivo ses' = s_archivo sesion_ejemplo"
    by (elim exE conjE)
  then have "SESIONES (registrar_todas mundo_ejemplo (ascii ''s1'') ?L) (ascii ''s1'') =
          Some ses' \<and>
       length (s_consultas ses') = 4 \<and>
       map c_tipo_analisis (s_consultas ses') =
         [ascii ''fallo'', ascii ''sujetos'', ascii ''ratio'', ascii ''otro''] \<and>
       s_archivo ses' = ascii ''a.pdf''"
    by (simp add: sesion_ejemplo_def)
  then show ?thesis using h by (intro conjI exI [of _ ses']) simp_all
qed

section \<open>The completion gateway\<close>

text \<open>
  C7, as stated, fails: the error is not one uniform message, and what the provider
  says reaches the caller. A provider exception whose message quotes an API key gives
  a \<open>detail\<close> that quotes it too, and another provider exception gives another error.
\<close>

theorem llamar_modelo_counterexample:
  "fst (llamar_modelo (cliente_falla (ascii ''Incorrect API key provided: sk-abc123''))
          mundo_inicial (ascii ''hola'')) =
     Inl (HTTPException 500
           (ascii ''Error al llamar al modelo: Incorrect API key provided: sk-abc123'')) \<and>
   fst (llamar_modelo (cliente_falla (ascii ''Incorrect API key provided: sk-abc123''))
          mundo_inicial (ascii ''hola'')) \<noteq>
   fst (llamar_modelo (cliente_falla (ascii ''Connection error.''))
          mundo_inicial (ascii ''hola''))"
  by (simp add: llamar_modelo_def cliente_falla_def Let_def ascii_def)

text \<open>
  C7, amended. Whatever exception the provider call raises, \<open>llamar_modelo\<close> raises
  one \<open>HTTPException\<close> of status 500, and its \<open>detail\<close> is the fixed heading
  \<open>Error al llamar al modelo: \<close> followed by the message of the provider's exception,
  verbatim.
\<close>

theorem llamar_modelo_falla:
  "client (traza w)
     \<lparr>model = ascii ''gpt-4o-mini'',
      messages = [(ascii ''system'', PROMPT_JURIDICO_BASE), (ascii ''user'', prompt)],
      temperature = 0.2\<rparr> = Inl m \<Longrightarrow>
   fst (llamar_modelo client w prompt) =
     Inl (HTTPException 500 (ascii ''Error al llamar al modelo: '' @ m))"
  by (simp add: llamar_modelo_def Let_def)

text \<open>The same for a provider that cannot be reached.\<close>

theorem llamar_modelo_falla_witness:
  "cliente_falla (ascii ''Connection error.'') (traza mundo_inicial)
     \<lparr>model = ascii ''gpt-4o-mini'',
      messages = [(ascii ''system'', PROMPT_JURIDICO_BASE), (ascii ''user'', ascii ''hola'')],
      temperature = 0.2\<rparr> = Inl (ascii ''Connection error.'') \<and>
   fst (llamar_modelo (cliente_falla (ascii ''Connection error.'')) mundo_inicial (ascii ''hola'')) =
     Inl (HTTPException 500 (ascii ''Error al llamar al modelo: '' @ ascii ''Connection error.''))"
  using llamar_modelo_falla [of "cliente_falla (ascii ''Connection error.'')" mundo_inicial
      "ascii ''hola''" "ascii ''Connection error.''"]
  by (simp add: cliente_falla_def)

section \<open>The request handlers\<close>

text \<open>Reading a file and calling the provider leave the store alone.\<close>

lemma leer_pdf_SESIONES: "SESIONES (snd (leer_pdf w file)) = SESIONES w"
  by (simp add: leer_pdf_def Let_def split: sum.splits)

lemma llamar_modelo_SESIONES: "SESIONES (snd (llamar_modelo client w prompt)) = SESIONES w"
  by (simp add: llamar_modelo_def Let_def split: sum.splits)

text \<open>The exceptions they raise.\<close>

lemma leer_pdf_error:
  "fst (leer_pdf w file) = Inl e \<Longrightarrow>
   \<exists>m. e = HTTPException 400 (ascii ''No se pudo leer el PDF: '' @ m)"
  by (auto simp: leer_pdf_def Let_def split: sum.splits)

lemma llamar_modelo_error:
  "fst (llamar_modelo client w prompt) = Inl e \<Longrightarrow>
   \<exists>m. e = HTTPException 500 (ascii ''Error al llamar al modelo: '' @ m)"
  by (auto simp: llamar_modelo_def Let_def split: sum.splits)

lemma lote_bucle_error:
  "fst (lote_bucle client w tipo_analisis pregunta archivos resultados) = Inl e \<Longrightarrow>
   (\<exists>m. e = HTTPException 400 (ascii ''No se pudo leer el PDF: '' @ m)) \<or>
   (\<exists>m. e = HTTPException 500 (ascii ''Error al llamar al modelo: '' @ m))"
proof (induction archivos arbitrary: w resultados)
  case Nil
  then show ?case by simp
next
  case (Cons a archivos)
  obtain r w1 where l: "leer_pdf w a = (r, w1)" by (cases "leer_pdf w a") auto
  show ?case
  proof (cases r)
    case (Inl e1)
    with l Cons.prems have "fst (leer_pdf w a) = Inl e" by simp
    then show ?thesis using leer_pdf_error by blast
  next
    case leido: (Inr leido)
    obtain r2 w2 where m: "llamar_modelo client w1
        (construir_prompt tipo_analisis (recortar leido) pregunta) = (r2, w2)"
      by (cases "llamar_modelo client w1
        (construir_prompt tipo_analisis (recortar leido) pregunta)") auto
    show ?thesis
    proof (cases r2)
      case (Inl e2)
      with l leido m Cons.prems
      have "fst (llamar_modelo client w1
          (construir_prompt tipo_analisis (recortar leido) pregunta)) = Inl e"
        by simp
      then show ?thesis using llamar_modelo_error by blast
    next
      case (Inr res)
      with l leido m Cons.prems
      have "fst (lote_bucle client w2 tipo_analisis pregunta archivos
              (resultados @ [\<lparr>l_archivo = filename a, l_resultado = res\<rparr>])) = Inl e"
        by simp
      then show ?thesis by (rule Cons.IH)
    qed
  qed
qed

lemma str_nat_10: "str_nat 10 = ascii ''10''"
  by (simp add: str_nat.simps [of 10] str_nat.simps [of "Suc 0"] ascii_def)

text \<open>
  C6. With more than 10 files \<open>analizar_lote\<close> raises the \<open>HTTPException\<close> of
  status 400 that names the cap, and the state is the one it started in: no file has
  been read, the provider has not been called, and there are no answers. With at most
  10 files the handler never raises that exception.
\<close>

theorem analizar_lote_tope:
  "(10 < length archivos \<longrightarrow>
      analizar_lote client w tipo_analisis archivos pregunta =
      (Inl (HTTPException 400 (ascii ''M'' @ [225] @ ascii ''ximo 10 archivos por lote.'')), w)) \<and>
   (length archivos \<le> 10 \<longrightarrow>
      fst (analizar_lote client w tipo_analisis archivos pregunta) \<noteq>
      Inl (HTTPException 400 (ascii ''M'' @ [225] @ ascii ''ximo 10 archivos por lote.'')))"
proof (intro conjI impI)
  assume "10 < length archivos"
  then show "analizar_lote client w tipo_analisis archivos pregunta =
      (Inl (HTTPException 400 (ascii ''M'' @ [225] @ ascii ''ximo 10 archivos por lote.'')), w)"
    by (simp add: analizar_lote_def MAX_FILES_LOTE_def str_nat_10 ascii_def)
next
  assume le: "length archivos \<le> 10"
  show "fst (analizar_lote client w tipo_analisis archivos pregunta) \<noteq>
      Inl (HTTPException 400 (ascii ''M'' @ [225] @ ascii ''ximo 10 archivos por lote.''))"
  proof
    assume a: "fst (analizar_lote client w tipo_analisis archivos pregunta) =
      Inl (HTTPException 400 (ascii ''M'' @ [225] @ ascii ''ximo 10 archivos por lote.''))"
    obtain r w1 where l: "lote_bucle client w tipo_analisis pregunta archivos [] = (r, w1)"
      by (cases "lote_bucle client w tipo_analisis pregunta archivos []") auto
    with a le have "fst (lote_bucle client w tipo_analisis pregunta archivos []) =
      Inl (HTTPException 400 (ascii ''M'' @ [225] @ ascii ''ximo 10 archivos por lote.''))"
      by (cases r) (simp_all add: analizar_lote_def MAX_FILES_LOTE_def)
    then have "(\<exists>m. HTTPException 400 (ascii ''M'' @ [225] @ ascii ''ximo 10 archivos por lote.'') =
          HTTPException 400 (ascii ''No se pudo leer el PDF: '' @ m)) \<or>
       (\<exists>m. HTTPException 400 (ascii ''M'' @ [225] @ ascii ''ximo 10 archivos por lote.'') =
          HTTPException 500 (ascii ''Error al llamar al modelo: '' @ m))"
      by (rule lote_bucle_error)
    then show False by (simp add: ascii_def)
  qed
qed

text \<open>Eleven readable files are refused in the starting state; one file is not.\<close>

theorem analizar_lote_tope_witness:
  "10 < length (replicate 11 \<lparr>filename = ascii ''a.pdf'', pdf = Inr [Inr (Some (ascii ''Fallo''))]\<rparr>) \<and>
   analizar_lote (cliente_responde (ascii ''ok'')) mundo_inicial (ascii ''fallo'')
     (replicate 11 \<lparr>filename = ascii ''a.pdf'', pdf = Inr [Inr (Some (ascii ''Fallo''))]\<rparr>) None =
   (Inl (HTTPException 400 (ascii ''M'' @ [225] @ ascii ''ximo 10 archivos por lote.'')), mundo_inicial) \<and>
   length [\<lparr>filename = ascii ''a.pdf'', pdf = Inr [Inr (Some (ascii ''Fallo''))]\<rparr>] \<le> 10 \<and>
   fst (analizar_lote (cliente_responde (ascii ''ok'')) mundo_inicial (ascii ''fallo'')
     [\<lparr>filename = ascii ''a.pdf'', pdf = Inr [Inr (Some (ascii ''Fallo''))]\<rparr>] None) \<noteq>
   Inl (HTTPException 400 (ascii ''M'' @ [225] @ ascii ''ximo 10 archivos por lote.''))"
  using analizar_lote_tope [of "replicate 11 \<lparr>filename = ascii ''a.pdf'', pdf = Inr [Inr (Some (ascii ''Fallo''))]\<rparr>"
      "cliente_responde (ascii ''ok'')" mundo_inicial "ascii ''fallo''" None]
    analizar_lote_tope [of "[\<lparr>filename = ascii ''a.pdf'', pdf = Inr [Inr (Some (ascii ''Fallo''))]\<rparr>]"
      "cliente_responde (ascii ''ok'')" mundo_inicial "ascii ''fallo''" None]
  by simp

text \<open>
  C10. In \<open>analizar\<close> and in \<open>analizar_json\<close> the file is read and the provider is
  called before \<open>crear_sesion\<close>: whenever the handler raises, because the PDF cannot be
  read or because the provider call fails, the store is the one the handler started
  with. So a session is only there when an answer was obtained.
\<close>

theorem analizar_error_sin_sesion:
  "(isl (fst (analizar client w uuid ahora1 ahora2 tipo_analisis archivo pregunta)) \<longrightarrow>
      SESIONES (snd (analizar client w uuid ahora1 ahora2 tipo_analisis archivo pregunta)) =
      SESIONES w) \<and>
   (isl (fst (analizar_json client w uuid ahora1 ahora2 tipo_analisis archivo pregunta)) \<longrightarrow>
      SESIONES (snd (analizar_json client w uuid ahora1 ahora2 tipo_analisis archivo pregunta)) =
      SESIONES w)"
proof -
  obtain r1 w1 where l: "leer_pdf w archivo = (r1, w1)" by (cases "leer_pdf w archivo") auto
  then have s1: "SESIONES w1 = SESIONES w" using leer_pdf_SESIONES [of w archivo] by simp
  show ?thesis
  proof (cases r1)
    case (Inl e)
    with l s1 show ?thesis by (simp add: analizar_def analizar_json_def)
  next
    case texto: (Inr texto)
    obtain r2 w2 where m: "llamar_modelo client w1
        (construir_prompt tipo_analisis (recortar texto) pregunta) = (r2, w2)"
      by (cases "llamar_modelo client w1
        (construir_prompt tipo_analisis (recortar texto) pregunta)") auto
    then have s2: "SESIONES w2 = SESIONES w1"
      using llamar_modelo_SESIONES [of client w1
          "construir_prompt tipo_analisis (recortar texto) pregunta"]
      by simp
    show ?thesis
    proof (cases r2)
      case (Inl e)
      with l texto m s1 s2 show ?thesis by (simp add: analizar_def analizar_json_def Let_def)
    next
      case (Inr resultado)
      with l texto m show ?thesis
        by (simp add: analizar_def analizar_json_def Let_def split: prod.splits)
    qed
  qed
qed

text \<open>
  A provider that fails under \<open>analizar\<close>, and a file that cannot be read under
  \<open>analizar_json\<close>: both raise, and the store of the example is as it was.
\<close>

theorem analizar_error_sin_sesion_witness:
  "isl (fst (analizar (cliente_falla (ascii ''Connection error.'')) mundo_ejemplo (ascii ''s2'')
          (ascii ''2026-01-02T09:00:00'') (ascii ''2026-01-02T09:00:01'') (ascii ''fallo'')
          \<lparr>filename = ascii ''b.pdf'', pdf = Inr [Inr (Some (ascii ''Fallo''))]\<rparr> None)) \<and>
   SESIONES (snd (analizar (cliente_falla (ascii ''Connection error.'')) mundo_ejemplo (ascii ''s2'')
          (ascii ''2026-01-02T09:00:00'') (ascii ''2026-01-02T09:00:01'') (ascii ''fallo'')
          \<lparr>filename = ascii ''b.pdf'', pdf = Inr [Inr (Some (ascii ''Fallo''))]\<rparr> None)) =
     SESIONES mundo_ejemplo \<and>
   isl (fst (analizar_json (cliente_responde (ascii ''ok'')) mundo_ejemplo (ascii ''s2'')
          (ascii ''2026-01-02T09:00:00'') (ascii ''2026-01-02T09:00:01'') (ascii ''fallo'')
          \<lparr>filename = ascii ''b.pdf'', pdf = Inl (ascii ''EOF marker not found'')\<rparr> None)) \<and>
   SESIONES (snd (analizar_json (cliente_responde (ascii ''ok'')) mundo_ejemplo (ascii ''s2'')
          (ascii ''2026-01-02T09:00:00'') (ascii ''2026-01-02T09:00:01'') (ascii ''fallo'')
          \<lparr>filename = ascii ''b.pdf'', pdf = Inl (ascii ''EOF marker not found'')\<rparr> None)) =
     SESIONES mundo_ejemplo"
  using analizar_error_sin_sesion [of "cliente_falla (ascii ''Connection error.'')" mundo_ejemplo
      "ascii ''s2''" "ascii ''2026-01-02T09:00:00''" "ascii ''2026-01-02T09:00:01''" "ascii ''fallo''"
      "\<lparr>filename = ascii ''b.pdf'', pdf = Inr [Inr (Some (ascii ''Fallo''))]\<rparr>" None]
    analizar_error_sin_sesion [of "cliente_responde (ascii ''ok'')" mundo_ejemplo
      "ascii ''s2''" "ascii ''2026-01-02T09:00:00''" "ascii ''2026-01-02T09:00:01''" "ascii ''fallo''"
      "\<lparr>filename = ascii ''b.pdf'', pdf = Inl (ascii ''EOF marker not found'')\<rparr>" None]
  by (simp add: analizar_def analizar_json_def leer_pdf_def llamar_modelo_def cliente_falla_def Let_def)

text \<open>
  What \<open>analizar_sesion\<close> counts: when the session exists and the provider answers,
  \<open>consultas_previas\<close> is the length of the history after the append, one more than
  the number of queries recorded before.
\<close>

lemma analizar_sesion_cuenta:
  "SESIONES w session_id = Some ses \<Longrightarrow>
   fst (llamar_modelo client w (construir_prompt tipo_analisis (s_texto_sentencia ses) pregunta)) =
     Inr resultado \<Longrightarrow>
   map_sum id n_consultas_previas
     (fst (analizar_sesion client w ahora session_id tipo_analisis pregunta)) =
   Inr (length (s_consultas ses) + 1)"
proof -
  assume s: "SESIONES w session_id = Some ses"
  assume r: "fst (llamar_modelo client w
      (construir_prompt tipo_analisis (s_texto_sentencia ses) pregunta)) = Inr resultado"
  obtain w1 where m: "llamar_modelo client w
      (construir_prompt tipo_analisis (s_texto_sentencia ses) pregunta) = (Inr resultado, w1)"
    using r by (cases "llamar_modelo client w
      (construir_prompt tipo_analisis (s_texto_sentencia ses) pregunta)") auto
  have "SESIONES w1 = SESIONES w"
    using llamar_modelo_SESIONES [of client w
        "construir_prompt tipo_analisis (s_texto_sentencia ses) pregunta"] m by simp
  then have "SESIONES w1 session_id = Some ses" using s by simp
  then show ?thesis using s m
    by (simp add: analizar_sesion_def Let_def registrar_consulta_def)
qed

text \<open>
  C2 does not hold of the code. The session \<open>s1\<close> of the example has one query in
  its history, the one of the upload. A continuation on it answers with
  \<open>consultas_previas = 2\<close>, the length after its own record was appended, where the
  claim gives 1, the length before.
\<close>

theorem analizar_sesion_consultas_previas:
  "map_option (length \<circ> s_consultas) (SESIONES mundo_ejemplo (ascii ''s1'')) = Some 1 \<and>
   map_sum id n_consultas_previas
     (fst (analizar_sesion (cliente_responde (ascii ''Desestimado por falta de prueba.''))
        mundo_ejemplo (ascii ''2026-01-01T10:05:00'') (ascii ''s1'') (ascii ''ratio'') None)) =
   Inr 2"
  by (simp add: analizar_sesion_def llamar_modelo_def cliente_responde_def registrar_consulta_def
      mundo_ejemplo_def sesion_ejemplo_def Let_def)

end
